theory Spec2Isabelle
  imports Main "HOL-Library.Sublist" "HOL-Library.Log_Nat"
begin

section \<open>Data: strings, bytes, parsed JSON\<close>

text \<open>
  A Python \<open>str\<close> is a sequence of Unicode code points; \<open>len\<close>, slicing and
  \<open>str.isalnum\<close> work on code points. A string is therefore a list of code points
  (natural numbers), and an ASCII literal of the source is written \<open>lit ''...''\<close>.
  A \<open>bytes\<close> object is a list of byte values.
\<close>

type_synonym str = "nat list"
type_synonym bytes = "nat list"

definition lit :: "string \<Rightarrow> str" where
  "lit s = map of_char s"

text \<open>
  What \<open>resp.json()\<close> returns: \<open>None\<close>, \<open>bool\<close>, \<open>int\<close>, \<open>float\<close>, \<open>str\<close>,
  \<open>list\<close> or \<open>dict\<close>. A float is kept by its value, with the three non-finite values
  the parser of the standard library also accepts. A \<open>dict\<close> is the list of its items in
  iteration order (keys pairwise distinct).
\<close>

datatype pyfloat = Finite rat | PosInf | NegInf | NaN

datatype json =
    JNull
  | JBool bool
  | JInt int
  | JFloat pyfloat
  | JStr str
  | JList "json list"
  | JDict "(str \<times> json) list"

text \<open>Python truthiness (\<open>bool(v)\<close>) of a parsed JSON value.\<close>

fun truthy :: "json \<Rightarrow> bool" where
  "truthy JNull = False"
| "truthy (JBool b) = b"
| "truthy (JInt i) = (i \<noteq> 0)"
| "truthy (JFloat f) = (f \<noteq> Finite 0)"
| "truthy (JStr s) = (s \<noteq> [])"
| "truthy (JList xs) = (xs \<noteq> [])"
| "truthy (JDict kvs) = (kvs \<noteq> [])"

section \<open>The library and the outside world\<close>

text \<open>
  The HTTP response as \<open>generate_image\<close> reads it: \<open>resp.status_code\<close>,
  \<open>resp.headers.get("content-type")\<close> (\<open>None\<close> when the header is absent),
  \<open>resp.content\<close>, and the outcome of \<open>resp.json()\<close> (\<open>None\<close> when it raises).
\<close>

record response =
  status_code :: int
  content_type_header :: "str option"
  content :: bytes
  json_result :: "json option"

text \<open>
  Functions of the Python library that the program calls and whose tables or codecs are
  not part of the repository. They are parameters of the model; every theorem holds for
  all of them.
  \<^item> \<open>uni_isalnum c\<close>: \<open>str.isalnum\<close> on a code point \<open>c \<ge> 128\<close> (the Unicode database);
  \<^item> \<open>uni_isspace c\<close>: \<open>str.isspace\<close> on a code point \<open>c \<ge> 128\<close>;
  \<^item> \<open>b64decode s\<close>: \<open>base64.b64decode(s)\<close>, \<open>Inl\<close> the text of the exception it raises;
  \<^item> \<open>py_repr v\<close>: \<open>repr(v)\<close> of a parsed JSON value.
\<close>

record pylib =
  uni_isalnum :: "nat \<Rightarrow> bool"
  uni_isspace :: "nat \<Rightarrow> bool"
  b64decode :: "str \<Rightarrow> str + bytes"
  py_repr :: "json \<Rightarrow> str"

text \<open>\<open>c.isalnum()\<close> for a one-character string: digits and letters in ASCII.\<close>

definition isalnum :: "pylib \<Rightarrow> nat \<Rightarrow> bool" where
  "isalnum L c =
     (if c < 128 then (48 \<le> c \<and> c \<le> 57) \<or> (65 \<le> c \<and> c \<le> 90) \<or> (97 \<le> c \<and> c \<le> 122)
      else uni_isalnum L c)"

text \<open>\<open>str(v)\<close>, as an f-string formats \<open>{v}\<close>: a string is itself, anything else its repr.\<close>

definition py_str :: "pylib \<Rightarrow> json \<Rightarrow> str" where
  "py_str L v = (case v of JStr s \<Rightarrow> s | _ \<Rightarrow> py_repr L v)"

text \<open>\<open>str(n)\<close> of an integer: decimal digits, with a minus sign.\<close>

fun digits :: "nat \<Rightarrow> str" where
  "digits n = (if n < 10 then [48 + n] else digits (n div 10) @ [48 + n mod 10])"

definition str_of_int :: "int \<Rightarrow> str" where
  "str_of_int i = (if i < 0 then 45 # digits (nat (- i)) else digits (nat i))"

section \<open>The response interpreter (lines 144 to 183 of \<open>generate_image\<close>)\<close>

text \<open>Every \<open>raise\<close> of the routine and every library call that can raise is a constructor.\<close>

datatype failure =
    TransportError str
  | ApiError json
  | UnexpectedResponse int json
  | NotJson int str
  | Base64Error str
  | ImageOpenError str
  | DisplayError str

text \<open>
  The heuristic of line 168:
  \<open>len(obj) > 200 and all(c.isalnum() or c in "+/=\n\r" for c in obj[:200])\<close>.
\<close>

definition b64_char :: "pylib \<Rightarrow> nat \<Rightarrow> bool" where
  "b64_char L c = (isalnum L c \<or> c \<in> set (lit ''+/='') \<or> c = 10 \<or> c = 13)"

definition b64_likely :: "pylib \<Rightarrow> str \<Rightarrow> bool" where
  "b64_likely L obj = (length obj > 200 \<and> list_all (b64_char L) (take 200 obj))"

text \<open>
  \<open>search_for_base64\<close> writes the nonlocal \<open>found_b64\<close>; here the variable is passed
  in and returned. \<open>if found_b64: return\<close> tests the truthiness of \<open>None\<close> or a string.
  The two loops (\<open>for v in obj.values()\<close>, \<open>for v in obj\<close>) call the function on every
  element, also after a match.
\<close>

definition found_truthy :: "str option \<Rightarrow> bool" where
  "found_truthy found = (case found of None \<Rightarrow> False | Some s \<Rightarrow> s \<noteq> [])"

fun search_for_base64 :: "pylib \<Rightarrow> json \<Rightarrow> str option \<Rightarrow> str option"
  and search_values :: "pylib \<Rightarrow> (str \<times> json) list \<Rightarrow> str option \<Rightarrow> str option"
  and search_elements :: "pylib \<Rightarrow> json list \<Rightarrow> str option \<Rightarrow> str option"
where
  "search_for_base64 L obj found =
     (if found_truthy found then found
      else (case obj of
              JStr s \<Rightarrow> if b64_likely L s then Some s else found
            | JDict kvs \<Rightarrow> search_values L kvs found
            | JList xs \<Rightarrow> search_elements L xs found
            | _ \<Rightarrow> found))"
| "search_values L [] found = found"
| "search_values L (kv # kvs) found =
     search_values L kvs (search_for_base64 L (snd kv) found)"
| "search_elements L [] found = found"
| "search_elements L (v # vs) found =
     search_elements L vs (search_for_base64 L v found)"

declare search_for_base64.simps(1) [simp del]

text \<open>\<open>isinstance(j, dict) and j.get("error")\<close>, as a condition.\<close>

definition error_field :: "json \<Rightarrow> json option" where
  "error_field j = (case j of JDict kvs \<Rightarrow> map_of kvs (lit ''error'') | _ \<Rightarrow> None)"

definition has_error :: "json \<Rightarrow> bool" where
  "has_error j = (case error_field j of Some v \<Rightarrow> truthy v | None \<Rightarrow> False)"

definition ctype :: "response \<Rightarrow> str" where
  "ctype r = (case content_type_header r of None \<Rightarrow> [] | Some c \<Rightarrow> c)"

definition startswith :: "str \<Rightarrow> str \<Rightarrow> bool" where
  "startswith s p = (take (length p) s = p)"

definition image_path :: "response \<Rightarrow> bool" where
  "image_path r = (status_code r = 200 \<and> startswith (ctype r) (lit ''image/''))"

text \<open>
  The value of \<open>image_bytes\<close> after line 183, or the exception raised before.
  \<open>j\<close> is \<open>None\<close> both when \<open>resp.json()\<close> raises and when the body is the JSON \<open>null\<close>.
\<close>

definition interpret_response :: "pylib \<Rightarrow> response \<Rightarrow> failure + bytes" where
  "interpret_response L r =
     (if image_path r then Inr (content r)
      else
        let j = (case json_result r of None \<Rightarrow> JNull | Some v \<Rightarrow> v) in
        if has_error j then Inl (ApiError (the (error_field j)))
        else if j \<noteq> JNull then
          (let found_b64 = search_for_base64 L j None in
           if found_truthy found_b64 then
             (case b64decode L (the found_b64) of
                Inl e \<Rightarrow> Inl (Base64Error e)
              | Inr b \<Rightarrow> Inr b)
           else Inl (UnexpectedResponse (status_code r) j))
        else Inl (NotJson (status_code r) (ctype r)))"

text \<open>\<open>str(e)\<close> of the exception, as the status line and the dialog show it.\<close>

fun message :: "pylib \<Rightarrow> failure \<Rightarrow> str" where
  "message L (TransportError e) = e"
| "message L (ApiError v) = lit ''Hugging Face API error: '' @ py_str L v"
| "message L (UnexpectedResponse st j) =
     lit ''Unexpected API response (status '' @ str_of_int st @ lit ''): '' @ py_str L j"
| "message L (NotJson st c) =
     lit ''Unexpected API response (status '' @ str_of_int st
       @ lit '') and not JSON. Content-type: '' @ c"
| "message L (Base64Error e) = e"
| "message L (ImageOpenError e) = e"
| "message L (DisplayError e) = e"

section \<open>The search as the specification words it\<close>

text \<open>
  The specification describes the search as a depth-first traversal (values of objects in
  iteration order, elements of lists in index order) that takes the first string passing
  the heuristic. \<open>strings_of\<close> lists the string values of a JSON value in that order,
  and \<open>first_b64\<close> is the first of them that passes. \<open>keep_or_first\<close> adds the
  variable \<open>found_b64\<close>: once it holds a match it is kept.
\<close>

fun strings_of :: "json \<Rightarrow> str list"
  and strings_of_values :: "(str \<times> json) list \<Rightarrow> str list"
  and strings_of_elements :: "json list \<Rightarrow> str list"
where
  "strings_of (JStr s) = [s]"
| "strings_of (JDict kvs) = strings_of_values kvs"
| "strings_of (JList xs) = strings_of_elements xs"
| "strings_of JNull = []"
| "strings_of (JBool b) = []"
| "strings_of (JInt i) = []"
| "strings_of (JFloat f) = []"
| "strings_of_values [] = []"
| "strings_of_values (kv # kvs) = strings_of (snd kv) @ strings_of_values kvs"
| "strings_of_elements [] = []"
| "strings_of_elements (v # vs) = strings_of v @ strings_of_elements vs"

definition first_b64 :: "pylib \<Rightarrow> str list \<Rightarrow> str option" where
  "first_b64 L ss = find (b64_likely L) ss"

definition keep_or_first :: "pylib \<Rightarrow> str list \<Rightarrow> str option \<Rightarrow> str option" where
  "keep_or_first L ss found =
     (if found_truthy found then found
      else (case find (b64_likely L) ss of None \<Rightarrow> found | Some s \<Rightarrow> Some s))"

text \<open>The base64 alphabet of RFC 4648, with the padding character.\<close>

definition in_b64_alphabet :: "nat \<Rightarrow> bool" where
  "in_b64_alphabet c =
     ((65 \<le> c \<and> c \<le> 90) \<or> (97 \<le> c \<and> c \<le> 122) \<or> (48 \<le> c \<and> c \<le> 57)
      \<or> c = 43 \<or> c = 47 \<or> c = 61)"

section \<open>Python floats\<close>

text \<open>
  A finite \<open>float\<close> is kept by its value, a rational number. \<open>round_double\<close> is the
  rounding of IEEE 754 binary64, to nearest with ties to even: for \<open>x > 0\<close> with
  \<open>2 ^ e \<le> x < 2 ^ (e + 1)\<close> the result is the multiple of \<open>2 ^ (max e (-1022) - 52)\<close>
  nearest to \<open>x\<close> (the \<open>max\<close> is the subnormal range). A result of \<open>2 ^ 1024\<close> or more is
  an overflow, tested where the source can reach it.
\<close>

definition floor_log2 :: "rat \<Rightarrow> int" where
  "floor_log2 x =
     (let (a, b) = quotient_of x; d = bitlen a - bitlen b
      in if 2 powi d \<le> x then d else d - 1)"

definition round_half_even :: "rat \<Rightarrow> int" where
  "round_half_even y =
     (let f = \<lfloor>y\<rfloor>; r = y - of_int f
      in if r < 1 / 2 then f
         else if 1 / 2 < r then f + 1
         else if even f then f else f + 1)"

definition round_double :: "rat \<Rightarrow> rat" where
  "round_double x =
     (if x = 0 then 0
      else let u = 2 powi (max (floor_log2 \<bar>x\<bar>) (- 1022) - 52)
           in sgn x * of_int (round_half_even (\<bar>x\<bar> / u)) * u)"

datatype arith_error = ZeroDivisionError | OverflowError

text \<open>\<open>a / b\<close> on two \<open>int\<close>s: the correctly rounded quotient.\<close>

definition int_truediv :: "int \<Rightarrow> int \<Rightarrow> arith_error + rat" where
  "int_truediv a b =
     (if b = 0 then Inl ZeroDivisionError
      else let q = round_double (of_int a / of_int b)
           in if 2 ^ 1024 \<le> \<bar>q\<bar> then Inl OverflowError else Inr q)"

text \<open>\<open>float(n)\<close>, the conversion that \<open>n * x\<close> applies to the \<open>int\<close> operand.\<close>

definition float_of_int :: "int \<Rightarrow> arith_error + rat" where
  "float_of_int n =
     (let q = round_double (of_int n)
      in if 2 ^ 1024 \<le> \<bar>q\<bar> then Inl OverflowError else Inr q)"

text \<open>
  \<open>int(n * x)\<close> for an \<open>int\<close> \<open>n\<close> and a \<open>float\<close> \<open>x\<close>: convert, multiply with rounding,
  truncate towards zero. An infinite product makes \<open>int\<close> raise \<open>OverflowError\<close>.
\<close>

definition trunc :: "rat \<Rightarrow> int" where
  "trunc x = (if 0 \<le> x then \<lfloor>x\<rfloor> else \<lceil>x\<rceil>)"

definition int_of_scaled :: "int \<Rightarrow> rat \<Rightarrow> arith_error + int" where
  "int_of_scaled n x =
     (case float_of_int n of
        Inl e \<Rightarrow> Inl e
      | Inr f \<Rightarrow> let p = round_double (f * x)
                 in if 2 ^ 1024 \<le> \<bar>p\<bar> then Inl OverflowError else Inr (trunc p))"

section \<open>The renderer (\<open>display_image\<close>)\<close>

text \<open>A decoded image: its size in pixels and its pixel data.\<close>

record image =
  img_width :: nat
  img_height :: nat
  img_data :: "nat list"

definition max_w :: int where "max_w = 768"
definition max_h :: int where "max_h = 512"

text \<open>Line 198: \<open>scale = min(max_w / w, max_h / h, 1.0)\<close>.\<close>

definition scale_factor :: "int \<Rightarrow> int \<Rightarrow> arith_error + rat" where
  "scale_factor w h =
     (case int_truediv max_w w of
        Inl e \<Rightarrow> Inl e
      | Inr sw \<Rightarrow>
          (case int_truediv max_h h of
             Inl e \<Rightarrow> Inl e
           | Inr sh \<Rightarrow> Inr (min sw (min sh 1))))"

text \<open>Lines 197 to 200: the size \<open>(new_w, new_h)\<close> passed to \<open>resize\<close>.\<close>

definition display_size :: "int \<Rightarrow> int \<Rightarrow> arith_error + int \<times> int" where
  "display_size w h =
     (case scale_factor w h of
        Inl e \<Rightarrow> Inl e
      | Inr scale \<Rightarrow>
          (case int_of_scaled w scale of
             Inl e \<Rightarrow> Inl e
           | Inr new_w \<Rightarrow>
               (case int_of_scaled h scale of
                  Inl e \<Rightarrow> Inl e
                | Inr new_h \<Rightarrow> Inr (new_w, new_h))))"

section \<open>The application state and its handlers\<close>

text \<open>
  \<open>messagebox.showwarning\<close>, \<open>showinfo\<close> and \<open>showerror\<close>, with title and message.
\<close>

datatype dialog = ShowWarning str str | ShowInfo str str | ShowError str str

text \<open>The arguments of the worker thread, \<open>(token, model, prompt, width, height, steps)\<close>.\<close>

record generation =
  gen_token :: str
  gen_model :: str
  gen_prompt :: str
  gen_width :: int
  gen_height :: int
  gen_steps :: int

text \<open>
  The attributes of \<open>HFTextToImageApp\<close> that the handlers read and write, and what they
  do to the outside: the dialogs shown, the threads started, the files written. The three
  \<open>IntVar\<close>s hold \<open>None\<close> when the entry is not a number (\<open>get()\<close> raises then). The
  canvas is the list of its items, an image at a position.
\<close>

record app =
  api_token_var :: str
  model_var :: str
  prompt_text :: str
  width_var :: "int option"
  height_var :: "int option"
  steps_var :: "int option"
  status_var :: str
  generated_image :: "image option"
  photo_image :: "image option"
  canvas :: "((int \<times> int) \<times> image) list"
  dialogs :: "dialog list"
  threads :: "generation list"
  files :: "(str \<times> image) list"

text \<open>
  The outside world of the worker: \<open>requests.post\<close> on the request built from the
  arguments (\<open>Inl\<close> the text of the exception of the transport),
  \<open>Image.open(io.BytesIO(b)).convert("RGBA")\<close>, \<open>Image.resize\<close>, and \<open>Image.save\<close>
  (\<open>Some\<close> the text of the exception when the write fails).
\<close>

record request =
  url :: str
  authorization :: str
  accept :: str
  inputs :: str
  param_width :: int
  param_height :: int
  num_inference_steps :: int
  wait_for_model :: bool
  timeout :: int

record world =
  http_post :: "request \<Rightarrow> str + response"
  image_open :: "bytes \<Rightarrow> str + image"
  image_resize :: "image \<Rightarrow> int \<times> int \<Rightarrow> str + image"
  image_save :: "image \<Rightarrow> str \<Rightarrow> str option"

definition DEFAULT_MODEL :: str where
  "DEFAULT_MODEL = lit ''runwayml/stable-diffusion-v1-5''"

definition HF_API_URL_TEMPLATE :: "str \<Rightarrow> str" where
  "HF_API_URL_TEMPLATE m = lit ''https://api-inference.huggingface.co/models/'' @ m"

text \<open>\<open>str.isspace\<close> on one character and \<open>str.strip()\<close>.\<close>

definition isspace :: "pylib \<Rightarrow> nat \<Rightarrow> bool" where
  "isspace L c =
     (if c < 128 then (9 \<le> c \<and> c \<le> 13) \<or> (28 \<le> c \<and> c \<le> 32) else uni_isspace L c)"

definition strip :: "pylib \<Rightarrow> str \<Rightarrow> str" where
  "strip L s = rev (dropWhile (isspace L) (rev (dropWhile (isspace L) s)))"

definition set_status :: "str \<Rightarrow> app \<Rightarrow> app" where
  "set_status text a = a\<lparr>status_var := text\<rparr>"

definition show_dialog :: "dialog \<Rightarrow> app \<Rightarrow> app" where
  "show_dialog d a = a\<lparr>dialogs := dialogs a @ [d]\<rparr>"

text \<open>
  \<open>on_generate_clicked\<close>. \<open>env_token\<close> is \<open>os.getenv("HF_API_TOKEN")\<close>. A \<open>get()\<close> that
  raises ends the callback: nothing else happens.
\<close>

definition on_generate_clicked :: "pylib \<Rightarrow> str option \<Rightarrow> app \<Rightarrow> app" where
  "on_generate_clicked L env_token a =
     (let prompt = strip L (prompt_text a) in
      if prompt = [] then
        show_dialog (ShowWarning (lit ''Prompt missing'')
          (lit ''Please enter a text prompt to generate an image.'')) a
      else
        let token = (if strip L (api_token_var a) \<noteq> [] then Some (strip L (api_token_var a))
                     else env_token) in
        if token = None \<or> token = Some [] then
          show_dialog (ShowWarning (lit ''API token missing'')
            (lit ''Provide a Hugging Face API token in the top field or set HF_API_TOKEN environment variable.'')) a
        else
          let model = (if strip L (model_var a) \<noteq> [] then strip L (model_var a)
                       else DEFAULT_MODEL) in
          (case (width_var a, height_var a, steps_var a) of
             (Some width, Some height, Some steps) \<Rightarrow>
               a\<lparr>threads := threads a @
                 [\<lparr>gen_token = the token, gen_model = model, gen_prompt = prompt,
                   gen_width = width, gen_height = height, gen_steps = steps\<rparr>]\<rparr>
           | _ \<Rightarrow> a))"

text \<open>
  \<open>display_image\<close>: the exception it raises (division by zero, overflow, or what
  \<open>resize\<close> raises), or the state with the photo image and the canvas replaced.
\<close>

definition arith_message :: "arith_error \<Rightarrow> str" where
  "arith_message e =
     (case e of ZeroDivisionError \<Rightarrow> lit ''division by zero''
      | OverflowError \<Rightarrow> lit ''int too large to convert to float'')"

definition display_image :: "world \<Rightarrow> image \<Rightarrow> app \<Rightarrow> str + app" where
  "display_image W pil_img a =
     (case display_size (int (img_width pil_img)) (int (img_height pil_img)) of
        Inl e \<Rightarrow> Inl (arith_message e)
      | Inr new_size \<Rightarrow>
          (case image_resize W pil_img new_size of
             Inl e \<Rightarrow> Inl e
           | Inr resized \<Rightarrow>
               Inr (a\<lparr>photo_image := Some resized,
                       canvas := [((max_w div 2, max_h div 2), resized)]\<rparr>)))"

definition build_request :: "generation \<Rightarrow> request" where
  "build_request g =
     \<lparr>url = HF_API_URL_TEMPLATE (gen_model g),
      authorization = lit ''Bearer '' @ gen_token g,
      accept = lit ''image/png'',
      inputs = gen_prompt g,
      param_width = gen_width g, param_height = gen_height g,
      num_inference_steps = gen_steps g,
      wait_for_model = True, timeout = 600\<rparr>"

text \<open>The \<open>except\<close> clause of \<open>generate_image\<close>.\<close>

definition report_error :: "pylib \<Rightarrow> failure \<Rightarrow> app \<Rightarrow> app" where
  "report_error L f a =
     show_dialog (ShowError (lit ''Generation error'') (message L f))
       (set_status (lit ''Error: '' @ message L f) a)"

text \<open>
  \<open>generate_image\<close>, with the exception it caught (\<open>None\<close> when it ran to the end) and
  the state it leaves.
\<close>

definition generate_image :: "pylib \<Rightarrow> world \<Rightarrow> generation \<Rightarrow> app \<Rightarrow> failure option \<times> app" where
  "generate_image L W g a0 =
     (let a1 = set_status (lit ''Preparing model / sending request...'') a0;
          a2 = set_status
            (lit ''Contacting Hugging Face inference API (this may take a while)...'') a1
      in case http_post W (build_request g) of
           Inl e \<Rightarrow> (Some (TransportError e), report_error L (TransportError e) a2)
         | Inr resp \<Rightarrow>
             (case interpret_response L resp of
                Inl f \<Rightarrow> (Some f, report_error L f a2)
              | Inr image_bytes \<Rightarrow>
                  (case image_open W image_bytes of
                     Inl e \<Rightarrow> (Some (ImageOpenError e), report_error L (ImageOpenError e) a2)
                   | Inr img \<Rightarrow>
                       let a3 = a2\<lparr>generated_image := Some img\<rparr> in
                       (case display_image W img a3 of
                          Inl e \<Rightarrow> (Some (DisplayError e), report_error L (DisplayError e) a3)
                        | Inr a4 \<Rightarrow>
                            (None, set_status (lit ''Image generated successfully.'') a4)))))"

definition clear_image :: "app \<Rightarrow> app" where
  "clear_image a =
     set_status (lit ''Cleared image.'')
       (a\<lparr>canvas := [], generated_image := None, photo_image := None\<rparr>)"

text \<open>\<open>save_image\<close>; a file is written by replacing the entry of its name.\<close>

definition write_file :: "str \<Rightarrow> image \<Rightarrow> (str \<times> image) list \<Rightarrow> (str \<times> image) list" where
  "write_file name img fs = (name, img) # filter (\<lambda>(n, _). n \<noteq> name) fs"

definition save_image :: "world \<Rightarrow> app \<Rightarrow> app" where
  "save_image W a =
     (case generated_image a of
        None \<Rightarrow> show_dialog (ShowInfo (lit ''No image'') (lit ''No generated image to save.'')) a
      | Some img \<Rightarrow>
          let filename = lit ''hf_generated_image.png'' in
          (case image_save W img filename of
             None \<Rightarrow>
               show_dialog (ShowInfo (lit ''Saved'') (lit ''Image saved as '' @ filename))
                 (a\<lparr>files := write_file filename img (files a)\<rparr>)
           | Some e \<Rightarrow> show_dialog (ShowError (lit ''Save error'') e) a))"

section \<open>A library instance and responses for the examples\<close>

text \<open>
  A concrete library, used only where a statement is evaluated at an explicit input: no
  code point above ASCII counts as alphanumeric or as white space, the decoder handles
  canonical unpadded base64 (groups of four alphabet characters) and raises on any other
  input, and \<open>repr\<close> prints nothing.
\<close>

definition b64_value :: "nat \<Rightarrow> nat option" where
  "b64_value c =
     (if 65 \<le> c \<and> c \<le> 90 then Some (c - 65)
      else if 97 \<le> c \<and> c \<le> 122 then Some (c - 71)
      else if 48 \<le> c \<and> c \<le> 57 then Some (c + 4)
      else if c = 43 then Some 62
      else if c = 47 then Some 63
      else None)"

fun decode_quads :: "nat list \<Rightarrow> bytes" where
  "decode_quads (a # b # c # d # rest) =
     (let n = ((a * 64 + b) * 64 + c) * 64 + d
      in n div 65536 # (n div 256) mod 256 # n mod 256 # decode_quads rest)"
| "decode_quads _ = []"

definition example_b64decode :: "str \<Rightarrow> str + bytes" where
  "example_b64decode s =
     (if length s mod 4 = 0 \<and> list_all (\<lambda>c. b64_value c \<noteq> None) s
      then Inr (decode_quads (map (\<lambda>c. the (b64_value c)) s))
      else Inl (lit ''Incorrect padding''))"

definition example_lib :: pylib where
  "example_lib =
     \<lparr>uni_isalnum = (\<lambda>c. False), uni_isspace = (\<lambda>c. False),
      b64decode = example_b64decode, py_repr = (\<lambda>v. [])\<rparr>"

definition png_response :: response where
  "png_response =
     \<lparr>status_code = 200, content_type_header = Some (lit ''image/png''),
      content = [137, 80, 78, 71], json_result = None\<rparr>"

definition b64_payload :: str where
  "b64_payload = replicate 300 65"

definition nested_json :: json where
  "nested_json =
     JDict [(lit ''id'', JInt 7),
            (lit ''data'', JList [JNull,
               JDict [(lit ''images'', JList [
                  JDict [(lit ''note'', JStr (lit ''ok'')),
                         (lit ''b64'', JStr b64_payload)]])]])]"

definition nested_response :: response where
  "nested_response =
     \<lparr>status_code = 200, content_type_header = Some (lit ''application/json''),
      content = [], json_result = Some nested_json\<rparr>"

definition first_payload :: str where
  "first_payload = replicate 204 65"

definition second_payload :: str where
  "second_payload = replicate 204 66"

definition two_match_json :: json where
  "two_match_json =
     JList [JStr (lit ''short''),
            JDict [(lit ''a'', JStr first_payload), (lit ''b'', JStr second_payload)]]"

definition two_match_response :: response where
  "two_match_response =
     \<lparr>status_code = 200, content_type_header = Some (lit ''application/json''),
      content = [], json_result = Some two_match_json\<rparr>"

definition html_response :: response where
  "html_response =
     \<lparr>status_code = 502, content_type_header = Some (lit ''text/html''),
      content = lit ''<html>Bad Gateway</html>'', json_result = None\<rparr>"

definition falsy_error_json :: json where
  "falsy_error_json = JDict [(lit ''error'', JStr []), (lit ''image'', JStr first_payload)]"

definition falsy_error_response :: response where
  "falsy_error_response =
     \<lparr>status_code = 200, content_type_header = Some (lit ''application/json''),
      content = [], json_result = Some falsy_error_json\<rparr>"

definition error_json :: json where
  "error_json = JDict [(lit ''error'', JStr (lit ''x''))]"

definition error_as_image_response :: response where
  "error_as_image_response =
     \<lparr>status_code = 200, content_type_header = Some (lit ''image/png''),
      content = [123, 34, 101, 114, 114, 111, 114, 34, 58, 34, 120, 34, 125],
      json_result = Some error_json\<rparr>"

definition loading_response :: response where
  "loading_response =
     \<lparr>status_code = 503, content_type_header = Some (lit ''application/json''),
      content = [], json_result = Some error_json\<rparr>"

definition old_image :: image where
  "old_image = \<lparr>img_width = 512, img_height = 512, img_data = [1, 2, 3]\<rparr>"

definition empty_image :: image where
  "empty_image = \<lparr>img_width = 0, img_height = 0, img_data = []\<rparr>"

definition example_world :: world where
  "example_world =
     \<lparr>http_post = (\<lambda>rq. if inputs rq = lit ''offline'' then Inl (lit ''Connection refused'')
                          else if inputs rq = lit ''a cat'' then Inr png_response
                          else Inr loading_response),
      image_open = (\<lambda>b. if b = [137, 80, 78, 71] then Inr empty_image
                          else Inl (lit ''cannot identify image file'')),
      image_resize = (\<lambda>img sz. Inr (img\<lparr>img_width := nat (fst sz), img_height := nat (snd sz)\<rparr>)),
      image_save = (\<lambda>img name. None)\<rparr>"

definition example_app :: app where
  "example_app =
     \<lparr>api_token_var = lit ''  '', model_var = [], prompt_text = [32, 9, 10],
      width_var = Some 512, height_var = Some 512, steps_var = Some 25,
      status_var = lit ''Ready'', generated_image = Some old_image,
      photo_image = Some old_image, canvas = [((384, 256), old_image)],
      dialogs = [], threads = [], files = []\<rparr>"

definition example_generation :: "str \<Rightarrow> generation" where
  "example_generation p =
     \<lparr>gen_token = lit ''hf_token'', gen_model = DEFAULT_MODEL, gen_prompt = p,
      gen_width = 512, gen_height = 512, gen_steps = 25\<rparr>"

section \<open>The search finds the first match\<close>

lemma b64_likely_nonempty: "b64_likely L s \<Longrightarrow> s \<noteq> []"
  by (auto simp: b64_likely_def)

lemma keep_or_first_Nil [simp]: "keep_or_first L [] found = found"
  by (simp add: keep_or_first_def)

lemma find_app:
  "find P (xs @ ys) = (case find P xs of None \<Rightarrow> find P ys | Some x \<Rightarrow> Some x)"
  by (induction xs) auto

lemma find_SomeD: "find P xs = Some x \<Longrightarrow> x \<in> set xs \<and> P x"
  by (auto simp: find_Some_iff)

lemma find_b64_nonempty: "find (b64_likely L) xs = Some s \<Longrightarrow> s \<noteq> []"
  by (auto simp: find_Some_iff b64_likely_def)

lemma keep_or_first_append:
  "keep_or_first L (xs @ ys) found = keep_or_first L ys (keep_or_first L xs found)"
  by (auto simp: keep_or_first_def found_truthy_def find_app
      split: option.splits dest: find_b64_nonempty)

lemma search_keep_or_first:
  "search_for_base64 L obj found = keep_or_first L (strings_of obj) found"
  "search_values L kvs found = keep_or_first L (strings_of_values kvs) found"
  "search_elements L xs found = keep_or_first L (strings_of_elements xs) found"
proof (induction L obj found and L kvs found and L xs found
    rule: search_for_base64_search_values_search_elements.induct)
  case (1 L obj found)
  then show ?case
    by (cases obj)
      (auto simp: search_for_base64.simps(1) keep_or_first_def split: option.splits)
next
  case (3 L kv kvs found)
  then show ?case by (simp add: keep_or_first_append)
next
  case (5 L v vs found)
  then show ?case by (simp add: keep_or_first_append)
qed simp_all

lemma in_b64_alphabet_b64_char: "in_b64_alphabet c \<Longrightarrow> b64_char L c"
  by (auto simp: in_b64_alphabet_def b64_char_def isalnum_def lit_def)

lemma alphabet_string_likely:
  assumes "length s > 200" and "\<forall>c\<in>set s. in_b64_alphabet c"
  shows "b64_likely L s"
  using assms
  by (auto simp: b64_likely_def list_all_iff in_b64_alphabet_b64_char dest: in_set_takeD)

lemma search_first_b64:
  "search_for_base64 L j None = first_b64 L (strings_of j)"
  by (simp add: search_keep_or_first keep_or_first_def found_truthy_def first_b64_def
      split: option.splits)

lemma first_b64_truthy:
  "found_truthy (first_b64 L ss) = (first_b64 L ss \<noteq> None)"
  by (auto simp: found_truthy_def first_b64_def split: option.splits dest: find_b64_nonempty)

lemma interpret_json_path:
  assumes "\<not> image_path r" and "json_result r = Some j" and "\<not> has_error j"
  shows "interpret_response L r =
     (case search_for_base64 L j None of
        Some s \<Rightarrow> (case b64decode L s of Inl e \<Rightarrow> Inl (Base64Error e) | Inr b \<Rightarrow> Inr b)
      | None \<Rightarrow> if j = JNull then Inl (NotJson (status_code r) (ctype r))
                else Inl (UnexpectedResponse (status_code r) j))"
proof (cases "j = JNull")
  case True
  with assms show ?thesis
    by (simp add: interpret_response_def found_truthy_def search_first_b64 first_b64_def
       )
next
  case False
  show ?thesis
  proof (cases "first_b64 L (strings_of j)")
    case None
    with assms False show ?thesis
      by (simp add: interpret_response_def search_first_b64 found_truthy_def
         )
  next
    case (Some s)
    then have "found_truthy (Some s)"
      using first_b64_truthy [of L "strings_of j"] by simp
    with Some assms False show ?thesis
      by (simp add: interpret_response_def search_first_b64)
  qed
qed

lemma first_b64_unique:
  assumes "s \<in> set ss" and "b64_likely L s" and "\<forall>t\<in>set ss. b64_likely L t \<longrightarrow> t = s"
  shows "first_b64 L ss = Some s"
proof (cases "find (b64_likely L) ss")
  case None
  then have "\<not> b64_likely L s"
    using assms(1) by (simp add: find_None_iff)
  with assms(2) show ?thesis by simp
next
  case (Some t)
  then have "t \<in> set ss \<and> b64_likely L t"
    by (rule find_SomeD)
  with assms(3) have "t = s" by blast
  with Some show ?thesis by (simp add: first_b64_def)
qed

lemma first_b64_split:
  assumes "ss = pre @ s # post" and "b64_likely L s" and "\<forall>t\<in>set pre. \<not> b64_likely L t"
  shows "first_b64 L ss = Some s"
  using assms
  by (auto simp: first_b64_def find_app find_None_iff split: option.splits dest: find_SomeD)

lemma example_lib_simps [simp]:
  "uni_isalnum example_lib = (\<lambda>c. False)"
  "b64decode example_lib = example_b64decode"
  "py_repr example_lib = (\<lambda>v. [])"
  by (simp_all add: example_lib_def)

lemma b64_likely_replicate:
  "b64_likely L (replicate n c) = (200 < n \<and> b64_char L c)"
  by (auto simp: b64_likely_def list_all_iff)

lemma b64_likely_short: "length s \<le> 200 \<Longrightarrow> \<not> b64_likely L s"
  by (simp add: b64_likely_def)

lemma example_decode_replicate_A:
  "n mod 4 = 0 \<Longrightarrow> example_b64decode (replicate n 65) = Inr (decode_quads (replicate n 0))"
  by (simp add: example_b64decode_def list_all_iff b64_value_def)

lemma has_error_iff:
  "has_error j = (\<exists>v. error_field j = Some v \<and> truthy v)"
  by (simp add: has_error_def split: option.splits)

lemma json_path_not_api_error:
  assumes "\<not> image_path r" and "json_result r = Some j" and "\<not> has_error j"
  shows "interpret_response L r \<noteq> Inl (ApiError v)"
  using interpret_json_path [OF assms, of L]
  by (simp split: option.splits sum.splits)

section \<open>The image path\<close>

text \<open>
  C3: a response with status 200 whose content-type starts with \<open>image/\<close> yields exactly
  its body bytes, whatever the body would parse to as JSON.
\<close>

theorem image_response_returns_body:
  "status_code r = 200 \<Longrightarrow> startswith (ctype r) (lit ''image/'') \<Longrightarrow>
   interpret_response L r = Inr (content r) \<and>
   interpret_response L (r\<lparr>json_result := jr\<rparr>) = Inr (content r)"
  by (simp add: interpret_response_def image_path_def ctype_def)

theorem image_response_returns_body_witness:
  "status_code png_response = 200 \<and> startswith (ctype png_response) (lit ''image/'') \<and>
   interpret_response example_lib png_response = Inr [137, 80, 78, 71] \<and>
   interpret_response example_lib
     (png_response\<lparr>json_result := Some (JDict [(lit ''error'', JStr (lit ''x''))])\<rparr>)
     = Inr [137, 80, 78, 71]"
proof -
  have st: "status_code png_response = 200"
    by (simp add: png_response_def)
  have ct: "startswith (ctype png_response) (lit ''image/'')"
    by (simp add: png_response_def startswith_def ctype_def lit_def)
  have body: "content png_response = [137, 80, 78, 71]"
    by (simp add: png_response_def)
  show ?thesis
    using image_response_returns_body [OF st ct, of example_lib
        "Some (JDict [(lit ''error'', JStr (lit ''x''))])"] st ct body
    by simp
qed

section \<open>The JSON path\<close>

text \<open>
  C1: on the JSON path, when no truthy top-level \<open>error\<close> field is present, the result is
  the base64 decoding of the first string, in depth-first order, that is longer than 200
  characters and whose first 200 characters are alphanumeric or among \<open>+/=\<close>, newline,
  carriage return. In particular a string of length 300 over the base64 alphabet, at any
  depth and any position, is located and decoded when it is the only string that passes.
\<close>

theorem json_path_decodes_first_b64:
  assumes "\<not> image_path r" and "json_result r = Some j" and "\<not> has_error j"
  shows "(first_b64 L (strings_of j) = Some s \<longrightarrow>
            interpret_response L r =
              (case b64decode L s of Inl e \<Rightarrow> Inl (Base64Error e) | Inr b \<Rightarrow> Inr b)) \<and>
         (s \<in> set (strings_of j) \<and> length s = 300 \<and> (\<forall>c\<in>set s. in_b64_alphabet c) \<and>
          (\<forall>t\<in>set (strings_of j). b64_likely L t \<longrightarrow> t = s) \<longrightarrow>
            interpret_response L r =
              (case b64decode L s of Inl e \<Rightarrow> Inl (Base64Error e) | Inr b \<Rightarrow> Inr b))"
proof (intro conjI impI)
  assume "first_b64 L (strings_of j) = Some s"
  then show "interpret_response L r =
      (case b64decode L s of Inl e \<Rightarrow> Inl (Base64Error e) | Inr b \<Rightarrow> Inr b)"
    using interpret_json_path [OF assms, of L]
    by (simp add: search_first_b64)
next
  assume a: "s \<in> set (strings_of j) \<and> length s = 300 \<and> (\<forall>c\<in>set s. in_b64_alphabet c) \<and>
          (\<forall>t\<in>set (strings_of j). b64_likely L t \<longrightarrow> t = s)"
  then have "b64_likely L s"
    by (intro alphabet_string_likely) auto
  with a have "first_b64 L (strings_of j) = Some s"
    by (intro first_b64_unique) auto
  then show "interpret_response L r =
      (case b64decode L s of Inl e \<Rightarrow> Inl (Base64Error e) | Inr b \<Rightarrow> Inr b)"
    using interpret_json_path [OF assms, of L]
    by (simp add: search_first_b64)
qed

theorem json_path_decodes_first_b64_witness:
  "\<not> image_path nested_response \<and> json_result nested_response = Some nested_json \<and>
   \<not> has_error nested_json \<and>
   first_b64 example_lib (strings_of nested_json) = Some b64_payload \<and>
   b64_payload \<in> set (strings_of nested_json) \<and> length b64_payload = 300 \<and>
   list_all in_b64_alphabet b64_payload \<and>
   filter (b64_likely example_lib) (strings_of nested_json) = [b64_payload] \<and>
   interpret_response example_lib nested_response = Inr (decode_quads (replicate 300 0))"
proof -
  have h1: "\<not> image_path nested_response"
    by (simp add: image_path_def nested_response_def ctype_def startswith_def lit_def)
  have h2: "json_result nested_response = Some nested_json"
    by (simp add: nested_response_def)
  have h3: "\<not> has_error nested_json"
    by (simp add: has_error_def error_field_def nested_json_def lit_def)
  have ss: "strings_of nested_json = [lit ''ok'', b64_payload]"
    by (simp add: nested_json_def)
  have ok: "\<not> b64_likely example_lib (lit ''ok'')"
    by (rule b64_likely_short) (simp add: lit_def)
  have pl: "b64_likely example_lib b64_payload"
    by (simp add: b64_payload_def b64_likely_replicate b64_char_def isalnum_def)
  have f: "first_b64 example_lib (strings_of nested_json) = Some b64_payload"
    by (simp add: ss first_b64_def ok pl)
  have m: "b64_payload \<in> set (strings_of nested_json)"
    by (simp add: ss)
  have len: "length b64_payload = 300"
    by (simp add: b64_payload_def)
  have al: "\<forall>c\<in>set b64_payload. in_b64_alphabet c"
    by (simp add: b64_payload_def in_b64_alphabet_def)
  have un: "\<forall>t\<in>set (strings_of nested_json). b64_likely example_lib t \<longrightarrow> t = b64_payload"
    by (simp add: ss ok)
  have dec: "b64decode example_lib b64_payload = Inr (decode_quads (replicate 300 0))"
    by (simp add: b64_payload_def example_decode_replicate_A)
  have al': "list_all in_b64_alphabet b64_payload"
    using al by (simp add: list_all_iff)
  have un': "filter (b64_likely example_lib) (strings_of nested_json) = [b64_payload]"
    by (simp add: ss ok pl)
  show ?thesis
    using json_path_decodes_first_b64 [OF h1 h2 h3, of example_lib b64_payload]
      h1 h2 h3 f m len al un al' un' dec
    by simp
qed

text \<open>
  C4: when two (or more) strings pass the heuristic, the one met first in traversal order
  (values of a dict in iteration order, elements of a list in index order) is chosen,
  whatever follows it.
\<close>

theorem first_of_two_matches_wins:
  assumes "\<not> image_path r" and "json_result r = Some j" and "\<not> has_error j"
    and "strings_of j = pre @ s1 # mid @ s2 # post"
    and "b64_likely L s1" and "b64_likely L s2"
    and "\<forall>t\<in>set pre. \<not> b64_likely L t"
  shows "search_for_base64 L j None = Some s1 \<and>
         interpret_response L r =
           (case b64decode L s1 of Inl e \<Rightarrow> Inl (Base64Error e) | Inr b \<Rightarrow> Inr b)"
proof -
  have "first_b64 L (strings_of j) = Some s1"
    using assms(4,5,7) by (rule first_b64_split)
  then show ?thesis
    using interpret_json_path [OF assms(1-3), of L]
    by (simp add: search_first_b64)
qed

theorem first_of_two_matches_wins_witness:
  "\<not> image_path two_match_response \<and> json_result two_match_response = Some two_match_json \<and>
   \<not> has_error two_match_json \<and>
   strings_of two_match_json = [lit ''short''] @ first_payload # [] @ second_payload # [] \<and>
   b64_likely example_lib first_payload \<and> b64_likely example_lib second_payload \<and>
   \<not> b64_likely example_lib (lit ''short'') \<and>
   search_for_base64 example_lib two_match_json None = Some first_payload \<and>
   interpret_response example_lib two_match_response = Inr (decode_quads (replicate 204 0))"
proof -
  have h1: "\<not> image_path two_match_response"
    by (simp add: image_path_def two_match_response_def ctype_def startswith_def lit_def)
  have h2: "json_result two_match_response = Some two_match_json"
    by (simp add: two_match_response_def)
  have h3: "\<not> has_error two_match_json"
    by (simp add: has_error_def error_field_def two_match_json_def)
  have h4: "strings_of two_match_json
      = [lit ''short''] @ first_payload # [] @ second_payload # []"
    by (simp add: two_match_json_def)
  have h5: "b64_likely example_lib first_payload"
    by (simp add: first_payload_def b64_likely_replicate b64_char_def isalnum_def)
  have h6: "b64_likely example_lib second_payload"
    by (simp add: second_payload_def b64_likely_replicate b64_char_def isalnum_def)
  have sh: "\<not> b64_likely example_lib (lit ''short'')"
    by (rule b64_likely_short) (simp add: lit_def)
  then have h7: "\<forall>t\<in>set [lit ''short'']. \<not> b64_likely example_lib t"
    by simp
  have dec: "b64decode example_lib first_payload = Inr (decode_quads (replicate 204 0))"
    by (simp add: first_payload_def example_decode_replicate_A)
  show ?thesis
    using first_of_two_matches_wins [OF h1 h2 h3 h4 h5 h6 h7] h1 h2 h3 h4 h5 h6 sh dec
    by simp
qed

text \<open>
  C6: a response that is not taken as an image and whose body does not parse as JSON
  yields the failure whose message ends with the content-type.
\<close>

theorem not_json_mentions_content_type:
  assumes "\<not> image_path r" and "json_result r = None"
  shows "interpret_response L r = Inl (NotJson (status_code r) (ctype r)) \<and>
         sublist (ctype r) (message L (NotJson (status_code r) (ctype r)))"
proof -
  have "message L (NotJson (status_code r) (ctype r)) =
      (lit ''Unexpected API response (status '' @ str_of_int (status_code r)
        @ lit '') and not JSON. Content-type: '') @ ctype r"
    by simp
  then have "sublist (ctype r) (message L (NotJson (status_code r) (ctype r)))"
    by (simp only: sublist_append_leftI)
  with assms show ?thesis
    by (simp add: interpret_response_def has_error_def error_field_def)
qed

theorem not_json_mentions_content_type_witness:
  "\<not> image_path html_response \<and> json_result html_response = None \<and>
   interpret_response example_lib html_response = Inl (NotJson 502 (lit ''text/html'')) \<and>
   sublist (lit ''text/html'') (message example_lib (NotJson 502 (lit ''text/html'')))"
proof -
  have h1: "\<not> image_path html_response"
    by (simp add: image_path_def html_response_def)
  have h2: "json_result html_response = None"
    by (simp add: html_response_def)
  have st: "status_code html_response = 502" and ct: "ctype html_response = lit ''text/html''"
    by (simp_all add: html_response_def ctype_def)
  show ?thesis
    using not_json_mentions_content_type [OF h1 h2, of example_lib] h1 h2
    by (simp only: st ct) simp
qed

text \<open>
  C5: when the top-level \<open>error\<close> field is absent or falsy (the empty string, \<open>null\<close>,
  \<open>false\<close>, \<open>0\<close>), the result is never the API-error failure: it is what the base64
  search decides. The heuristic rejects every string of length exactly 200, and two
  strings longer than 200 with the same first 200 characters are judged alike, so nothing
  after position 200 is inspected.
\<close>

theorem falsy_error_proceeds_to_search:
  assumes "\<not> image_path r" and "json_result r = Some j"
    and "error_field j = None \<or> (\<exists>v. error_field j = Some v \<and> \<not> truthy v)"
  shows "interpret_response L r \<noteq> Inl (ApiError e) \<and>
         interpret_response L r =
           (case search_for_base64 L j None of
              Some s \<Rightarrow> (case b64decode L s of Inl e \<Rightarrow> Inl (Base64Error e) | Inr b \<Rightarrow> Inr b)
            | None \<Rightarrow> if j = JNull then Inl (NotJson (status_code r) (ctype r))
                      else Inl (UnexpectedResponse (status_code r) j)) \<and>
         \<not> truthy (JStr []) \<and> \<not> truthy JNull \<and> \<not> truthy (JBool False) \<and> \<not> truthy (JInt 0) \<and>
         (length u = 200 \<longrightarrow> \<not> b64_likely L u) \<and>
         (length s > 200 \<and> length t > 200 \<and> take 200 t = take 200 s \<longrightarrow>
            b64_likely L t = b64_likely L s)"
proof -
  have ne: "\<not> has_error j"
    using assms(3) by (auto simp: has_error_iff)
  have a: "interpret_response L r \<noteq> Inl (ApiError e)"
    using assms(1,2) ne by (rule json_path_not_api_error)
  have b: "interpret_response L r =
           (case search_for_base64 L j None of
              Some s \<Rightarrow> (case b64decode L s of Inl e \<Rightarrow> Inl (Base64Error e) | Inr b \<Rightarrow> Inr b)
            | None \<Rightarrow> if j = JNull then Inl (NotJson (status_code r) (ctype r))
                      else Inl (UnexpectedResponse (status_code r) j))"
    using assms(1,2) ne by (rule interpret_json_path)
  have c: "length u = 200 \<longrightarrow> \<not> b64_likely L u"
    by (simp add: b64_likely_def)
  have d: "length s > 200 \<and> length t > 200 \<and> take 200 t = take 200 s \<longrightarrow>
            b64_likely L t = b64_likely L s"
    by (simp add: b64_likely_def)
  from a b c d show ?thesis by simp
qed

theorem falsy_error_proceeds_to_search_witness:
  "\<not> image_path falsy_error_response \<and>
   json_result falsy_error_response = Some falsy_error_json \<and>
   error_field falsy_error_json = Some (JStr []) \<and> \<not> truthy (JStr []) \<and>
   interpret_response example_lib falsy_error_response = Inr (decode_quads (replicate 204 0)) \<and>
   length (replicate 200 (65::nat)) = 200 \<and> \<not> b64_likely example_lib (replicate 200 65) \<and>
   length first_payload > 200 \<and> length (replicate 200 65 @ lit ''!?!?'') > 200 \<and>
   take 200 (replicate 200 65 @ lit ''!?!?'') = take 200 first_payload \<and>
   b64_likely example_lib (replicate 200 65 @ lit ''!?!?'')"
proof -
  have h1: "\<not> image_path falsy_error_response"
    by (simp add: image_path_def falsy_error_response_def ctype_def startswith_def lit_def)
  have h2: "json_result falsy_error_response = Some falsy_error_json"
    by (simp add: falsy_error_response_def)
  have ef: "error_field falsy_error_json = Some (JStr [])"
    by (simp add: error_field_def falsy_error_json_def)
  then have h3: "error_field falsy_error_json = None \<or>
      (\<exists>v. error_field falsy_error_json = Some v \<and> \<not> truthy v)"
    by simp
  have pl: "b64_likely example_lib first_payload"
    by (simp add: first_payload_def b64_likely_replicate b64_char_def isalnum_def)
  have e: "\<not> b64_likely example_lib []"
    by (simp add: b64_likely_def)
  have s: "search_for_base64 example_lib falsy_error_json None = Some first_payload"
    by (simp add: search_first_b64 first_b64_def falsy_error_json_def pl e)
  have dec: "b64decode example_lib first_payload = Inr (decode_quads (replicate 204 0))"
    by (simp add: first_payload_def example_decode_replicate_A)
  have l1: "length (replicate 200 (65::nat)) = 200" by simp
  have l2: "length first_payload > 200" by (simp add: first_payload_def)
  have l3: "length (replicate 200 (65::nat) @ lit ''!?!?'') > 200" by (simp add: lit_def)
  have tk: "take 200 (replicate 200 65 @ lit ''!?!?'') = take 200 first_payload"
    by (simp add: first_payload_def)
  show ?thesis
    using falsy_error_proceeds_to_search [OF h1 h2 h3, where L = example_lib
        and u = "replicate 200 65" and s = first_payload
        and t = "replicate 200 65 @ lit ''!?!?''"]
      h1 h2 ef l1 l2 l3 tk pl dec
    by (simp add: s)
qed

section \<open>The API error\<close>

text \<open>
  C2, as stated, fails: a response with status 200 and an \<open>image/\<close> content-type whose
  body is \<open>{"error": "x"}\<close> is returned as image bytes, and an object whose \<open>error\<close>
  field is the empty string, next to a base64 payload, is decoded as an image.
\<close>

theorem error_body_counterexample:
  "interpret_response example_lib error_as_image_response
     = Inr [123, 34, 101, 114, 114, 111, 114, 34, 58, 34, 120, 34, 125] \<and>
   interpret_response example_lib falsy_error_response = Inr (decode_quads (replicate 204 0))"
proof -
  have "image_path error_as_image_response"
    by (simp add: image_path_def error_as_image_response_def ctype_def startswith_def lit_def)
  then have a: "interpret_response example_lib error_as_image_response
     = Inr [123, 34, 101, 114, 114, 111, 114, 34, 58, 34, 120, 34, 125]"
    by (simp add: interpret_response_def error_as_image_response_def)
  have h1: "\<not> image_path falsy_error_response"
    by (simp add: image_path_def falsy_error_response_def ctype_def startswith_def lit_def)
  have h2: "json_result falsy_error_response = Some falsy_error_json"
    by (simp add: falsy_error_response_def)
  have h3: "\<not> has_error falsy_error_json"
    by (simp add: has_error_def error_field_def falsy_error_json_def)
  have pl: "b64_likely example_lib first_payload"
    by (simp add: first_payload_def b64_likely_replicate b64_char_def isalnum_def)
  have e: "\<not> b64_likely example_lib []"
    by (simp add: b64_likely_def)
  have s: "search_for_base64 example_lib falsy_error_json None = Some first_payload"
    by (simp add: search_first_b64 first_b64_def falsy_error_json_def pl e)
  have dec: "b64decode example_lib first_payload = Inr (decode_quads (replicate 204 0))"
    by (simp add: first_payload_def example_decode_replicate_A)
  have b: "interpret_response example_lib falsy_error_response
      = Inr (decode_quads (replicate 204 0))"
    using interpret_json_path [OF h1 h2 h3, of example_lib] dec by (simp add: s)
  from a b show ?thesis by simp
qed

text \<open>
  C2, amended: for a response that is not taken as an image, the body \<open>{"error": "x"}\<close>
  yields a failure whose message contains \<open>x\<close>, whatever the status code; and whenever the
  parsed JSON is an object whose \<open>error\<close> field is truthy, the failure is the API error,
  with the message \<open>Hugging Face API error: \<close> followed by the value.
\<close>

theorem error_field_yields_api_failure:
  assumes "\<not> image_path r"
  shows "(json_result r = Some (JDict [(lit ''error'', JStr x)]) \<longrightarrow>
            (\<exists>f. interpret_response L r = Inl f \<and> sublist x (message L f))) \<and>
         (json_result r = Some (JDict kvs) \<and> map_of kvs (lit ''error'') = Some v \<and> truthy v \<longrightarrow>
            interpret_response L r = Inl (ApiError v) \<and>
            message L (ApiError v) = lit ''Hugging Face API error: '' @ py_str L v)"
proof (intro conjI impI)
  assume j: "json_result r = Some (JDict [(lit ''error'', JStr x)])"
  show "\<exists>f. interpret_response L r = Inl f \<and> sublist x (message L f)"
  proof (cases "x = []")
    case True
    have "interpret_response L r
        = Inl (UnexpectedResponse (status_code r) (JDict [(lit ''error'', JStr x)]))"
      using assms j True
      by (simp add: interpret_response_def has_error_def error_field_def
          search_first_b64 first_b64_def b64_likely_def found_truthy_def)
    with True show ?thesis by simp
  next
    case False
    have "interpret_response L r = Inl (ApiError (JStr x))"
      using assms j False
      by (simp add: interpret_response_def has_error_def error_field_def)
    moreover have "sublist x (message L (ApiError (JStr x)))"
      by (simp add: py_str_def)
    ultimately show ?thesis by blast
  qed
next
  assume a: "json_result r = Some (JDict kvs) \<and> map_of kvs (lit ''error'') = Some v \<and> truthy v"
  then show "interpret_response L r = Inl (ApiError v)"
    using assms by (simp add: interpret_response_def has_error_def error_field_def)
  show "message L (ApiError v) = lit ''Hugging Face API error: '' @ py_str L v"
    by simp
qed

theorem error_field_yields_api_failure_witness:
  "\<not> image_path loading_response \<and>
   json_result loading_response = Some (JDict [(lit ''error'', JStr (lit ''x''))]) \<and>
   map_of [(lit ''error'', JStr (lit ''x''))] (lit ''error'') = Some (JStr (lit ''x'')) \<and>
   truthy (JStr (lit ''x'')) \<and>
   interpret_response example_lib loading_response = Inl (ApiError (JStr (lit ''x''))) \<and>
   message example_lib (ApiError (JStr (lit ''x''))) = lit ''Hugging Face API error: x'' \<and>
   sublist (lit ''x'') (message example_lib (ApiError (JStr (lit ''x''))))"
proof -
  have h1: "\<not> image_path loading_response"
    by (simp add: image_path_def loading_response_def)
  have h2: "json_result loading_response = Some (JDict [(lit ''error'', JStr (lit ''x''))])"
    by (simp add: loading_response_def error_json_def)
  have h3: "map_of [(lit ''error'', JStr (lit ''x''))] (lit ''error'') = Some (JStr (lit ''x''))"
    by simp
  have h4: "truthy (JStr (lit ''x''))"
    by (simp add: lit_def)
  have m: "message example_lib (ApiError (JStr (lit ''x''))) = lit ''Hugging Face API error: x''"
    by (simp add: py_str_def lit_def)
  have sb: "sublist (lit ''x'') (message example_lib (ApiError (JStr (lit ''x''))))"
    by (simp add: py_str_def)
  show ?thesis
    using error_field_yields_api_failure [OF h1, where x = "lit ''x''"
        and kvs = "[(lit ''error'', JStr (lit ''x''))]" and v = "JStr (lit ''x'')"
        and L = example_lib] h1 h2 h3 h4 m sb
    by simp
qed

section \<open>The handlers\<close>

lemma dropWhile_all: "list_all P s \<Longrightarrow> dropWhile P s = []"
  by (simp add: list_all_iff)

lemma strip_whitespace: "list_all (isspace L) s \<Longrightarrow> strip L s = []"
  by (simp add: strip_def dropWhile_all)

lemma report_error_image [simp]:
  "generated_image (report_error L f a) = generated_image a"
  by (simp add: report_error_def show_dialog_def set_status_def)

lemma set_status_image [simp]:
  "generated_image (set_status t a) = generated_image a"
  by (simp add: set_status_def)

lemma display_image_image:
  "display_image W img a = Inr a' \<Longrightarrow> generated_image a' = generated_image a"
  by (auto simp: display_image_def split: sum.splits)

text \<open>
  C7: with an empty or whitespace-only prompt, and likewise with a prompt but an empty
  token field and no token in the environment, \<open>on_generate_clicked\<close> only shows a
  warning: no thread is started, so no request is sent.
\<close>

theorem empty_prompt_or_token_starts_nothing:
  "(list_all (isspace L) (prompt_text a) \<longrightarrow>
      on_generate_clicked L env_token a =
        show_dialog (ShowWarning (lit ''Prompt missing'')
          (lit ''Please enter a text prompt to generate an image.'')) a \<and>
      threads (on_generate_clicked L env_token a) = threads a) \<and>
   (strip L (prompt_text a) \<noteq> [] \<and> list_all (isspace L) (api_token_var a) \<and>
    (env_token = None \<or> env_token = Some []) \<longrightarrow>
      on_generate_clicked L env_token a =
        show_dialog (ShowWarning (lit ''API token missing'')
          (lit ''Provide a Hugging Face API token in the top field or set HF_API_TOKEN environment variable.'')) a \<and>
      threads (on_generate_clicked L env_token a) = threads a)"
  by (auto simp: on_generate_clicked_def strip_whitespace show_dialog_def Let_def)

theorem empty_prompt_or_token_starts_nothing_witness:
  "list_all (isspace example_lib) (prompt_text example_app) \<and>
   on_generate_clicked example_lib None example_app =
     show_dialog (ShowWarning (lit ''Prompt missing'')
       (lit ''Please enter a text prompt to generate an image.'')) example_app \<and>
   threads (on_generate_clicked example_lib None example_app) = threads example_app \<and>
   strip example_lib (prompt_text (example_app\<lparr>prompt_text := lit ''a cat''\<rparr>)) = lit ''a cat'' \<and>
   list_all (isspace example_lib) (api_token_var (example_app\<lparr>prompt_text := lit ''a cat''\<rparr>)) \<and>
   threads (on_generate_clicked example_lib None (example_app\<lparr>prompt_text := lit ''a cat''\<rparr>))
     = threads (example_app\<lparr>prompt_text := lit ''a cat''\<rparr>)"
proof -
  have h1: "list_all (isspace example_lib) (prompt_text example_app)"
    by (simp add: example_app_def isspace_def)
  have h2: "strip example_lib (prompt_text (example_app\<lparr>prompt_text := lit ''a cat''\<rparr>))
      = lit ''a cat''"
    by (simp add: strip_def isspace_def lit_def)
  have h3: "list_all (isspace example_lib)
      (api_token_var (example_app\<lparr>prompt_text := lit ''a cat''\<rparr>))"
    by (simp add: example_app_def isspace_def lit_def)
  have ne: "lit ''a cat'' \<noteq> []"
    by (simp add: lit_def)
  show ?thesis
    using empty_prompt_or_token_starts_nothing [of example_lib example_app None]
      empty_prompt_or_token_starts_nothing [of example_lib
        "example_app\<lparr>prompt_text := lit ''a cat''\<rparr>" None] h1 h2 h3 ne
    by (simp add: show_dialog_def)
qed

text \<open>
  C9: after \<open>clear_image\<close> the stored image is \<open>None\<close>, and \<open>save_image\<close> then shows
  the \<open>No image\<close> dialog and writes no file.
\<close>

theorem clear_then_save_reports_no_image:
  "generated_image (clear_image a) = None \<and>
   save_image W (clear_image a) =
     show_dialog (ShowInfo (lit ''No image'') (lit ''No generated image to save.''))
       (clear_image a) \<and>
   files (save_image W (clear_image a)) = files a"
  by (simp add: clear_image_def save_image_def set_status_def show_dialog_def)

text \<open>
  C10: when \<open>generate_image\<close> fails with a transport error, an API error, a
  response-shape error, or a base64 or image decoding error (any exception but one of
  \<open>display_image\<close>), the stored image is the one stored before; and when the stored
  image has changed, the response was interpreted and its bytes decoded, and the stored
  image is the decoded one.
\<close>

theorem failure_keeps_current_image:
  "(fst (generate_image L W g a) = Some f \<and> (\<forall>e. f \<noteq> DisplayError e) \<longrightarrow>
      generated_image (snd (generate_image L W g a)) = generated_image a) \<and>
   (generated_image (snd (generate_image L W g a)) \<noteq> generated_image a \<longrightarrow>
      (\<exists>resp b img. http_post W (build_request g) = Inr resp \<and>
         interpret_response L resp = Inr b \<and> image_open W b = Inr img \<and>
         generated_image (snd (generate_image L W g a)) = Some img))"
proof (intro conjI impI)
  assume "fst (generate_image L W g a) = Some f \<and> (\<forall>e. f \<noteq> DisplayError e)"
  then show "generated_image (snd (generate_image L W g a)) = generated_image a"
    by (auto simp: generate_image_def Let_def split: sum.splits)
next
  assume "generated_image (snd (generate_image L W g a)) \<noteq> generated_image a"
  then show "\<exists>resp b img. http_post W (build_request g) = Inr resp \<and>
         interpret_response L resp = Inr b \<and> image_open W b = Inr img \<and>
         generated_image (snd (generate_image L W g a)) = Some img"
    by (auto simp: generate_image_def Let_def split: sum.splits dest: display_image_image)
qed

theorem failure_keeps_current_image_witness:
  "fst (generate_image example_lib example_world (example_generation (lit ''offline'')) example_app)
     = Some (TransportError (lit ''Connection refused'')) \<and>
   generated_image
     (snd (generate_image example_lib example_world (example_generation (lit ''offline''))
        example_app)) = Some old_image \<and>
   generated_image example_app = Some old_image \<and>
   generated_image
     (snd (generate_image example_lib example_world (example_generation (lit ''a cat''))
        example_app)) = Some empty_image \<and>
   http_post example_world (build_request (example_generation (lit ''a cat''))) = Inr png_response \<and>
   interpret_response example_lib png_response = Inr [137, 80, 78, 71] \<and>
   image_open example_world [137, 80, 78, 71] = Inr empty_image"
proof -
  have p1: "http_post example_world (build_request (example_generation (lit ''offline'')))
      = Inl (lit ''Connection refused'')"
    by (simp add: example_world_def build_request_def example_generation_def)
  have f1: "fst (generate_image example_lib example_world (example_generation (lit ''offline''))
      example_app) = Some (TransportError (lit ''Connection refused''))"
    by (simp add: generate_image_def p1)
  have old: "generated_image example_app = Some old_image"
    by (simp add: example_app_def)
  have p2: "http_post example_world (build_request (example_generation (lit ''a cat'')))
      = Inr png_response"
    by (simp add: example_world_def build_request_def example_generation_def lit_def)
  have i2: "interpret_response example_lib png_response = Inr [137, 80, 78, 71]"
    by (simp add: interpret_response_def image_path_def png_response_def ctype_def
        startswith_def lit_def)
  have o2: "image_open example_world [137, 80, 78, 71] = Inr empty_image"
    by (simp add: example_world_def)
  have d2: "display_image example_world empty_image a = Inl (lit ''division by zero'')" for a
    by (simp add: display_image_def display_size_def scale_factor_def int_truediv_def
        empty_image_def arith_message_def)
  have g2: "generated_image (snd (generate_image example_lib example_world
      (example_generation (lit ''a cat'')) example_app)) = Some empty_image"
    by (simp add: generate_image_def p2 i2 o2 d2)
  have ne: "old_image \<noteq> empty_image"
    by (simp add: old_image_def empty_image_def)
  show ?thesis
    using failure_keeps_current_image [of example_lib example_world
        "example_generation (lit ''offline'')" example_app
        "TransportError (lit ''Connection refused'')"]
      f1 old p2 i2 o2 g2 ne
    by simp
qed

end
